theory Spec2Isabelle
  imports Main
begin

section \<open>The packaging script \<^verbatim>\<open>setup.py\<close>\<close>

text \<open>
  The script imports \<^verbatim>\<open>setup\<close> from \<^verbatim>\<open>setuptools\<close> and calls it once with twelve
  keyword arguments. Eleven of them are literals; \<^verbatim>\<open>long_description\<close> is
  \<^verbatim>\<open>open("README.md").read()\<close>, which is evaluated before the call and may raise.

  The model threads an interpreter state through the two statements of the module. The
  state holds what the script's environment consists of: the file system as \<^verbatim>\<open>open\<close>
  sees it (paths relative to the working directory) and the text encoding of the locale,
  which \<^verbatim>\<open>open\<close> uses since the script passes no \<^verbatim>\<open>encoding\<close>; and what the script
  does: the names bound at module level and the calls made to \<^verbatim>\<open>setuptools.setup\<close> so
  far. \<^verbatim>\<open>setuptools\<close> itself is an external library: its \<^verbatim>\<open>setup\<close> is modelled by the
  record of the keyword arguments it was called with, and the import is taken to succeed.
\<close>

subsection \<open>Values, errors and the interpreter state\<close>

text \<open>
  A file holds bytes; a \<^typ>\<open>char\<close> of HOL is one byte. A Python \<^verbatim>\<open>str\<close> is a sequence of
  code points. A string literal of the source, which is ASCII, denotes the code points of
  its characters.
\<close>

type_synonym bytes = "char list"

type_synonym py_str = "nat list"

definition lit :: "string \<Rightarrow> py_str" where
  "lit s = map of_char s"

text \<open>The three shapes of value that occur among the keyword arguments.\<close>

datatype py_value =
    Str py_str
  | StrList "py_str list"
  | StrListDict "(py_str \<times> py_str list) list"

type_synonym kwargs = "(string \<times> py_value) list"

text \<open>
  The errors of \<^verbatim>\<open>open\<close>, each carrying the path, and the error of \<^verbatim>\<open>read\<close> on bytes
  that the encoding cannot decode.
\<close>

datatype py_error =
    FileNotFoundError string
  | PermissionError string
  | IsADirectoryError string
  | OSError string
  | UnicodeDecodeError

text \<open>
  What a path can lead to: a regular file that can be opened for reading, a file the
  process may not read, a directory, or anything else that makes \<^verbatim>\<open>open\<close> fail (a loop
  of symbolic links, a device error).
\<close>

datatype file_node = Regular bytes | NoPermission | Directory | Unopenable

type_synonym filesystem = "string \<rightharpoonup> file_node"

text \<open>
  A text encoding, as far as reading goes: the code points a sequence of bytes decodes
  to, or nothing when it does not decode.
\<close>

type_synonym codec = "bytes \<Rightarrow> py_str option"

text \<open>What a module-level name can be bound to.\<close>

datatype py_object =
    Imported string string
  | ClassObject
  | FunctionObject

record interpreter =
  files :: filesystem
  encoding :: codec
  globals :: "(string \<times> py_object) list"
  setup_calls :: "kwargs list"

definition initial :: "filesystem \<Rightarrow> codec \<Rightarrow> interpreter" where
  "initial fs enc = \<lparr>files = fs, encoding = enc, globals = [], setup_calls = []\<rparr>"

subsection \<open>The operations the script uses\<close>

text \<open>\<^verbatim>\<open>open(path)\<close>: the file is opened for reading, in text mode.\<close>

definition builtin_open :: "string \<Rightarrow> interpreter \<Rightarrow> py_error + bytes" where
  "builtin_open path st =
     (case files st path of
        None \<Rightarrow> Inl (FileNotFoundError path)
      | Some NoPermission \<Rightarrow> Inl (PermissionError path)
      | Some Directory \<Rightarrow> Inl (IsADirectoryError path)
      | Some Unopenable \<Rightarrow> Inl (OSError path)
      | Some (Regular contents) \<Rightarrow> Inr contents)"

text \<open>
  Text mode translates line endings: a carriage return, with the line feed after it if
  there is one, is read as one line feed. The flag tells that the code point before was
  a carriage return.
\<close>

fun translate_newlines :: "bool \<Rightarrow> py_str \<Rightarrow> py_str" where
  "translate_newlines after_cr [] = []"
| "translate_newlines after_cr (c # cs) =
     (if c = 13 then 10 # translate_newlines True cs
      else if c = 10 \<and> after_cr then translate_newlines False cs
      else c # translate_newlines False cs)"

text \<open>
  \<^verbatim>\<open>.read()\<close> on the file opened in text mode: the bytes are decoded with the locale's
  encoding, strictly, and the line endings translated.
\<close>

definition file_read :: "bytes \<Rightarrow> interpreter \<Rightarrow> py_error + py_str" where
  "file_read contents st =
     (case encoding st contents of
        None \<Rightarrow> Inl UnicodeDecodeError
      | Some decoded \<Rightarrow> Inr (translate_newlines False decoded))"

text \<open>\<^verbatim>\<open>from modname import name\<close>.\<close>

definition import_from :: "string \<Rightarrow> string \<Rightarrow> interpreter \<Rightarrow> interpreter" where
  "import_from modname name st =
     st\<lparr>globals := globals st @ [(name, Imported modname name)]\<rparr>"

text \<open>A call of \<^verbatim>\<open>setuptools.setup\<close> with keyword arguments \<open>kw\<close>: the call is recorded.\<close>

definition setuptools_setup :: "kwargs \<Rightarrow> interpreter \<Rightarrow> interpreter" where
  "setuptools_setup kw st = st\<lparr>setup_calls := setup_calls st @ [kw]\<rparr>"

subsection \<open>The module body\<close>

text \<open>
  The keyword arguments are evaluated left to right; only \<^verbatim>\<open>long_description\<close> can
  raise, in \<^verbatim>\<open>open\<close> or in \<^verbatim>\<open>read\<close>, and when it does the call is never made.
\<close>

definition setup_py :: "interpreter \<Rightarrow> (py_error + unit) \<times> interpreter" where
  "setup_py st0 =
     (let st1 = import_from ''setuptools'' ''setup'' st0 in
      case builtin_open ''README.md'' st1 of
        Inl e \<Rightarrow> (Inl e, st1)
      | Inr contents \<Rightarrow>
          (case file_read contents st1 of
             Inl e \<Rightarrow> (Inl e, st1)
           | Inr readme \<Rightarrow>
               (Inr (),
                setuptools_setup
                  [(''name'', Str (lit ''starlette_exporter'')),
                   (''version'', Str (lit ''0.14.0'')),
                   (''author'', Str (lit ''Stephen Hillier'')),
                   (''author_email'', Str (lit ''stephenhillier@gmail.com'')),
                   (''packages'', StrList [lit ''starlette_exporter'']),
                   (''package_data'',
                      StrListDict [(lit ''starlette_exporter'', [lit ''py.typed''])]),
                   (''license'', Str (lit ''Apache License 2.0'')),
                   (''url'', Str (lit ''https://github.com/stephenhillier/starlette_exporter'')),
                   (''description'',
                      Str (lit ''Prometheus metrics exporter for Starlette applications.'')),
                   (''long_description'', Str readme),
                   (''long_description_content_type'', Str (lit ''text/markdown'')),
                   (''install_requires'', StrList [lit ''prometheus_client'', lit ''starlette''])]
                  st1)))"

definition run :: "filesystem \<Rightarrow> codec \<Rightarrow> (py_error + unit) \<times> interpreter" where
  "run fs enc = setup_py (initial fs enc)"

text \<open>The keyword arguments of a call other than the one named.\<close>

definition without :: "string \<Rightarrow> kwargs \<Rightarrow> kwargs" where
  "without k kw = filter (\<lambda>(k', v). k' \<noteq> k) kw"

subsection \<open>Two encodings\<close>

text \<open>
  ASCII decodes a byte below 128 to the code point of the same number and nothing else;
  Latin-1 (ISO 8859-1) decodes every byte to the code point of the same number.
\<close>

definition ascii_decode :: codec where
  "ascii_decode bs =
     (if list_all (\<lambda>b. (of_char b :: nat) < 128) bs then Some (map of_char bs) else None)"

definition latin1_decode :: codec where
  "latin1_decode bs = Some (map of_char bs)"



section \<open>The middleware and the metrics handler\<close>

text \<open>
  The package \<^verbatim>\<open>starlette_exporter\<close> that the script installs is not among the
  sources. Its middleware and its metrics handler are modelled from the description of
  the component design. The host framework's handler below the middleware, and the
  renderer of the metrics library, are parameters.
\<close>

record request =
  req_method :: string
  req_route :: string

record response =
  status :: nat
  body :: string

text \<open>A label set: method, route and status.\<close>

type_synonym labels = "string \<times> string \<times> nat"

text \<open>
  Modelled from the spec: the state of the metrics client library, which the package
  only updates through the library: one counter and one histogram per label set. A
  histogram is kept as the list of the values observed.
\<close>

record registry =
  counter :: "labels \<Rightarrow> nat"
  histogram :: "labels \<Rightarrow> int list"

text \<open>
  Modelled from the spec: the library call that updates a counter, which is absent from
  the sources.
\<close>

definition counter_inc :: "labels \<Rightarrow> registry \<Rightarrow> registry" where
  "counter_inc key reg = reg\<lparr>counter := (counter reg)(key := counter reg key + 1)\<rparr>"

text \<open>
  Modelled from the spec: the library call that updates a histogram, which is absent
  from the sources.
\<close>

definition histogram_observe :: "labels \<Rightarrow> int \<Rightarrow> registry \<Rightarrow> registry" where
  "histogram_observe key v reg =
     reg\<lparr>histogram := (histogram reg)(key := histogram reg key @ [v])\<rparr>"

text \<open>The state the middleware works on: the clock and the library's registry.\<close>

record server =
  clock :: int
  metrics :: registry

text \<open>
  The handler below the middleware: given the request and the time at which it starts,
  it raises an exception or returns a response, and tells the time at which it is done.
\<close>

type_synonym 'e app = "request \<Rightarrow> int \<Rightarrow> ('e + response) \<times> int"

definition labels_of :: "request \<Rightarrow> response \<Rightarrow> labels" where
  "labels_of req resp = (req_method req, req_route req, status resp)"

text \<open>
  Modelled from the spec: the middleware class of \<^verbatim>\<open>starlette_exporter\<close>, which is
  absent from the sources. On each incoming request it records the start time; on the
  response it computes the elapsed time and updates a counter and a histogram keyed by
  method, route and status. An exception of the handler below propagates unchanged; the
  description says nothing about the metrics in that case, and the model leaves them as
  they were.
\<close>

definition dispatch :: "'e app \<Rightarrow> request \<Rightarrow> server \<Rightarrow> ('e + response) \<times> server" where
  "dispatch app req st =
     (let start = clock st;
          (result, finish) = app req start
      in case result of
           Inl exn \<Rightarrow> (Inl exn, st\<lparr>clock := finish\<rparr>)
         | Inr resp \<Rightarrow>
             (let elapsed = finish - start;
                  key = labels_of req resp
              in (Inr resp,
                  st\<lparr>clock := finish,
                     metrics := histogram_observe key elapsed (counter_inc key (metrics st))\<rparr>)))"

text \<open>
  Modelled from the spec: the request handler function of \<^verbatim>\<open>starlette_exporter\<close> for
  the metrics path, which is absent from the sources. It calls the library's
  exposition-format renderer and returns its output as the body of a 200 response.
\<close>

definition handle_metrics :: "(registry \<Rightarrow> string) \<Rightarrow> request \<Rightarrow> server \<Rightarrow> response" where
  "handle_metrics render req st = \<lparr>status = 200, body = render (metrics st)\<rparr>"

text \<open>
  Modelled from the spec: a host application with the middleware installed, serving
  requests one after the other. An exception reaches the host, which goes on with the
  next request.
\<close>

fun serve_all :: "'e app \<Rightarrow> request list \<Rightarrow> server \<Rightarrow> ('e + response) list \<times> server" where
  "serve_all app [] st = ([], st)"
| "serve_all app (req # reqs) st =
     (let (result, st') = dispatch app req st;
          (results, st'') = serve_all app reqs st'
      in (result # results, st''))"

text \<open>The label set a served request was counted under, if it got a response.\<close>

definition counted_as :: "request \<Rightarrow> 'e + response \<Rightarrow> labels option" where
  "counted_as req result =
     (case result of Inl exn \<Rightarrow> None | Inr resp \<Rightarrow> Some (labels_of req resp))"

section \<open>Properties of the packaging script\<close>

lemma run_readable:
  "fs ''README.md'' = Some (Regular contents) \<Longrightarrow> enc contents = Some decoded \<Longrightarrow>
   run fs enc =
     (Inr (),
      \<lparr>files = fs, encoding = enc,
       globals = [(''setup'', Imported ''setuptools'' ''setup'')],
       setup_calls =
         [[(''name'', Str (lit ''starlette_exporter'')),
           (''version'', Str (lit ''0.14.0'')),
           (''author'', Str (lit ''Stephen Hillier'')),
           (''author_email'', Str (lit ''stephenhillier@gmail.com'')),
           (''packages'', StrList [lit ''starlette_exporter'']),
           (''package_data'',
              StrListDict [(lit ''starlette_exporter'', [lit ''py.typed''])]),
           (''license'', Str (lit ''Apache License 2.0'')),
           (''url'', Str (lit ''https://github.com/stephenhillier/starlette_exporter'')),
           (''description'',
              Str (lit ''Prometheus metrics exporter for Starlette applications.'')),
           (''long_description'', Str (translate_newlines False decoded)),
           (''long_description_content_type'', Str (lit ''text/markdown'')),
           (''install_requires'', StrList [lit ''prometheus_client'', lit ''starlette''])]]\<rparr>)"
  by (simp add: run_def setup_py_def initial_def import_from_def builtin_open_def
        file_read_def setuptools_setup_def)

lemma run_undecodable:
  "fs ''README.md'' = Some (Regular contents) \<Longrightarrow> enc contents = None \<Longrightarrow>
   run fs enc =
     (Inl UnicodeDecodeError,
      \<lparr>files = fs, encoding = enc,
       globals = [(''setup'', Imported ''setuptools'' ''setup'')],
       setup_calls = []\<rparr>)"
  by (simp add: run_def setup_py_def initial_def import_from_def builtin_open_def
        file_read_def)

lemma run_unopenable:
  "(\<forall>contents. fs ''README.md'' \<noteq> Some (Regular contents)) \<Longrightarrow>
   (\<exists>e. builtin_open ''README.md'' (initial fs enc) = Inl e \<and> fst (run fs enc) = Inl e) \<and>
   snd (run fs enc) =
     \<lparr>files = fs, encoding = enc,
      globals = [(''setup'', Imported ''setuptools'' ''setup'')],
      setup_calls = []\<rparr>"
  by (auto simp: run_def setup_py_def initial_def import_from_def builtin_open_def
           split: option.splits file_node.splits)

lemma run_cases:
  obtains
    (unopenable) "\<forall>contents. fs ''README.md'' \<noteq> Some (Regular contents)"
  | (undecodable) contents where
      "fs ''README.md'' = Some (Regular contents)" "enc contents = None"
  | (readable) contents decoded where
      "fs ''README.md'' = Some (Regular contents)" "enc contents = Some decoded"
proof (cases "\<exists>contents. fs ''README.md'' = Some (Regular contents)")
  case False
  then show ?thesis using unopenable by blast
next
  case True
  then obtain contents where c: "fs ''README.md'' = Some (Regular contents)" by blast
  show ?thesis
  proof (cases "enc contents")
    case None
    with c show ?thesis by (rule undecodable)
  next
    case (Some decoded)
    with c show ?thesis by (rule readable)
  qed
qed

lemma translate_newlines_example:
  "translate_newlines False (lit ''a'' @ [13, 10] @ lit ''b'' @ [13] @ lit ''c'' @ [10]) =
   lit ''a'' @ [10] @ lit ''b'' @ [10] @ lit ''c'' @ [10]"
  by (simp add: lit_def)

subsection \<open>What evaluating the script does\<close>

text \<open>
  Claim C1, as amended. The source is a packaging descriptor and nothing else. Whenever
  \<^verbatim>\<open>README.md\<close> can be opened and its bytes decode in the locale's encoding, evaluation
  ends without an error after exactly one call of \<^verbatim>\<open>setuptools.setup\<close>, with the
  twelve keyword arguments of the source, of which \<^verbatim>\<open>long_description\<close> is the decoded
  text with its line endings translated and the other eleven are the same in every such
  evaluation. In every case there is at most one call, the module binds one name, the
  imported \<^verbatim>\<open>setup\<close>, and defines no class and no function, and nothing else happens:
  the file system and the encoding are as they were.
\<close>

theorem setup_py_packaging_descriptor:
  "globals (snd (run fs enc)) = [(''setup'', Imported ''setuptools'' ''setup'')] \<and>
   files (snd (run fs enc)) = fs \<and>
   encoding (snd (run fs enc)) = enc \<and>
   length (setup_calls (snd (run fs enc))) \<le> 1 \<and>
   (fs ''README.md'' = Some (Regular contents) \<and> enc contents = Some decoded \<longrightarrow>
      fst (run fs enc) = Inr () \<and>
      map (map fst) (setup_calls (snd (run fs enc))) =
        [[''name'', ''version'', ''author'', ''author_email'', ''packages'', ''package_data'',
          ''license'', ''url'', ''description'', ''long_description'',
          ''long_description_content_type'', ''install_requires'']] \<and>
      map (\<lambda>kw. map_of kw ''long_description'') (setup_calls (snd (run fs enc))) =
        [Some (Str (translate_newlines False decoded))] \<and>
      (\<forall>fs' enc' contents' decoded'.
         fs' ''README.md'' = Some (Regular contents') \<and> enc' contents' = Some decoded' \<longrightarrow>
         map (without ''long_description'') (setup_calls (snd (run fs enc))) =
         map (without ''long_description'') (setup_calls (snd (run fs' enc')))))"
proof (cases rule: run_cases [where fs = fs and enc = enc])
  case unopenable
  then show ?thesis using run_unopenable [of fs enc] by simp
next
  case (undecodable bs)
  then show ?thesis by (auto simp: run_undecodable)
next
  case (readable bs dec)
  then show ?thesis by (auto simp: run_readable without_def)
qed

theorem setup_py_packaging_descriptor_witness:
  "[''README.md'' \<mapsto> Regular ''# starlette_exporter''] ''README.md'' =
     Some (Regular ''# starlette_exporter'') \<and>
   ascii_decode ''# starlette_exporter'' = Some (lit ''# starlette_exporter'') \<and>
   fst (run [''README.md'' \<mapsto> Regular ''# starlette_exporter''] ascii_decode) = Inr () \<and>
   map (\<lambda>kw. map_of kw ''long_description'')
     (setup_calls (snd (run [''README.md'' \<mapsto> Regular ''# starlette_exporter''] ascii_decode))) =
     [Some (Str (lit ''# starlette_exporter''))]"
proof -
  have f: "[''README.md'' \<mapsto> Regular ''# starlette_exporter''] ''README.md'' =
             Some (Regular ''# starlette_exporter'')"
    by simp
  have d: "ascii_decode ''# starlette_exporter'' = Some (lit ''# starlette_exporter'')"
    by (simp add: ascii_decode_def lit_def)
  have n: "translate_newlines False (lit ''# starlette_exporter'') = lit ''# starlette_exporter''"
    by (simp add: lit_def)
  show ?thesis
    using setup_py_packaging_descriptor
            [of "[''README.md'' \<mapsto> Regular ''# starlette_exporter'']" ascii_decode
                "''# starlette_exporter''" "lit ''# starlette_exporter''"]
          f d n
    by simp
qed

text \<open>
  The condition on \<^verbatim>\<open>README.md\<close> cannot be dropped: in a working directory without
  the file, the script makes no call at all.
\<close>

theorem setup_py_one_call_counterexample:
  "length (setup_calls (snd (run Map.empty latin1_decode))) \<noteq> 1"
  by (simp add: run_def setup_py_def initial_def import_from_def builtin_open_def)

text \<open>
  Claim C2. The call declares exactly the two install requirements
  \<^verbatim>\<open>prometheus_client\<close> and \<^verbatim>\<open>starlette\<close>, in that order, and passes no other keyword
  that declares a dependency.
\<close>

theorem install_requires_exact:
  "fs ''README.md'' = Some (Regular contents) \<Longrightarrow> enc contents = Some decoded \<Longrightarrow>
   map (\<lambda>kw. map_of kw ''install_requires'') (setup_calls (snd (run fs enc))) =
     [Some (StrList [lit ''prometheus_client'', lit ''starlette''])] \<and>
   map (\<lambda>kw. (map_of kw ''setup_requires'', map_of kw ''extras_require'',
               map_of kw ''tests_require''))
     (setup_calls (snd (run fs enc))) = [(None, None, None)]"
  by (simp add: run_readable)

theorem install_requires_exact_witness:
  "[''README.md'' \<mapsto> Regular ''Prometheus exporter''] ''README.md'' =
     Some (Regular ''Prometheus exporter'') \<and>
   latin1_decode ''Prometheus exporter'' = Some (lit ''Prometheus exporter'') \<and>
   map (\<lambda>kw. map_of kw ''install_requires'')
     (setup_calls (snd (run [''README.md'' \<mapsto> Regular ''Prometheus exporter''] latin1_decode))) =
     [Some (StrList [lit ''prometheus_client'', lit ''starlette''])]"
proof -
  have f: "[''README.md'' \<mapsto> Regular ''Prometheus exporter''] ''README.md'' =
             Some (Regular ''Prometheus exporter'')"
    by simp
  have d: "latin1_decode ''Prometheus exporter'' = Some (lit ''Prometheus exporter'')"
    by (simp add: latin1_decode_def lit_def)
  show ?thesis
    using install_requires_exact
            [of "[''README.md'' \<mapsto> Regular ''Prometheus exporter'']" "''Prometheus exporter''"
                latin1_decode "lit ''Prometheus exporter''"]
          f d
    by simp
qed

text \<open>
  Claim C6. The call passes neither an \<^verbatim>\<open>entry_points\<close> nor a \<^verbatim>\<open>scripts\<close> argument,
  so that the package declares no console script.
\<close>

theorem no_console_scripts:
  "fs ''README.md'' = Some (Regular contents) \<Longrightarrow> enc contents = Some decoded \<Longrightarrow>
   map (\<lambda>kw. (map_of kw ''entry_points'', map_of kw ''scripts''))
     (setup_calls (snd (run fs enc))) = [(None, None)]"
  by (simp add: run_readable)

theorem no_console_scripts_witness:
  "[''README.md'' \<mapsto> Regular ''usage''] ''README.md'' = Some (Regular ''usage'') \<and>
   ascii_decode ''usage'' = Some (lit ''usage'') \<and>
   map (\<lambda>kw. (map_of kw ''entry_points'', map_of kw ''scripts''))
     (setup_calls (snd (run [''README.md'' \<mapsto> Regular ''usage''] ascii_decode))) =
     [(None, None)]"
proof -
  have f: "[''README.md'' \<mapsto> Regular ''usage''] ''README.md'' = Some (Regular ''usage'')"
    by simp
  have d: "ascii_decode ''usage'' = Some (lit ''usage'')"
    by (simp add: ascii_decode_def lit_def)
  show ?thesis
    using no_console_scripts
            [of "[''README.md'' \<mapsto> Regular ''usage'']" "''usage''" ascii_decode "lit ''usage''"]
          f d
    by simp
qed

text \<open>
  Claim C9. When \<^verbatim>\<open>README.md\<close> is absent or cannot be read, evaluation ends with the
  error that \<^verbatim>\<open>open\<close> raises, and \<^verbatim>\<open>setuptools.setup\<close> has not been called.
\<close>

theorem unreadable_readme_raises_before_setup:
  "(\<forall>contents. fs ''README.md'' \<noteq> Some (Regular contents)) \<Longrightarrow>
   (\<exists>e. builtin_open ''README.md'' (initial fs enc) = Inl e \<and> fst (run fs enc) = Inl e) \<and>
   setup_calls (snd (run fs enc)) = []"
  by (auto simp: run_def setup_py_def initial_def import_from_def builtin_open_def
           split: option.splits file_node.splits)

theorem unreadable_readme_raises_before_setup_witness:
  "(\<forall>contents. [''setup.py'' \<mapsto> Regular ''from setuptools import setup''] ''README.md''
                \<noteq> Some (Regular contents)) \<and>
   fst (run [''setup.py'' \<mapsto> Regular ''from setuptools import setup''] latin1_decode) =
     Inl (FileNotFoundError ''README.md'') \<and>
   setup_calls
     (snd (run [''setup.py'' \<mapsto> Regular ''from setuptools import setup''] latin1_decode)) = []"
  using unreadable_readme_raises_before_setup
          [of "[''setup.py'' \<mapsto> Regular ''from setuptools import setup'']" latin1_decode]
  by (simp add: builtin_open_def initial_def)




section \<open>Properties of the middleware and the metrics handler\<close>

subsection \<open>One request, then many\<close>

lemma dispatch_response:
  "app req (clock st) = (Inr resp, finish) \<Longrightarrow>
   dispatch app req st =
     (Inr resp,
      st\<lparr>clock := finish,
         metrics := histogram_observe (labels_of req resp) (finish - clock st)
                      (counter_inc (labels_of req resp) (metrics st))\<rparr>)"
  by (simp add: dispatch_def Let_def)

lemma dispatch_counter:
  "counter (metrics (snd (dispatch app req st))) key =
   counter (metrics st) key +
     (if counted_as req (fst (dispatch app req st)) = Some key then 1 else 0)"
  by (cases "app req (clock st)")
     (auto simp: dispatch_def Let_def counted_as_def counter_inc_def histogram_observe_def
           split: sum.splits)

lemma serve_all_counter:
  "counter (metrics (snd (serve_all app reqs st))) key =
   counter (metrics st) key +
     count_list (map2 counted_as reqs (fst (serve_all app reqs st))) (Some key)"
proof (induction reqs arbitrary: st)
  case Nil
  show ?case by simp
next
  case (Cons req reqs)
  obtain result st' where d: "dispatch app req st = (result, st')"
    by (cases "dispatch app req st")
  obtain results st'' where s: "serve_all app reqs st' = (results, st'')"
    by (cases "serve_all app reqs st'")
  have "counter (metrics st') key =
        counter (metrics st) key + (if counted_as req result = Some key then 1 else 0)"
    using dispatch_counter [of app req st key] d by simp
  moreover have "counter (metrics st'') key =
        counter (metrics st') key + count_list (map2 counted_as reqs results) (Some key)"
    using Cons.IH [of st'] s by simp
  ultimately show ?case
    using d s by simp
qed

subsection \<open>The described behaviour\<close>

text \<open>
  Claim C4. For a request that the handler below answers, the middleware returns that
  response; the elapsed time is the time at the response minus the start time recorded
  on arrival; exactly the counter and the histogram keyed by the request's method and
  route and the response's status are updated, the counter by one and the histogram by
  the elapsed time. The metrics handler returns the output of the library's renderer as
  the response body.
\<close>

theorem middleware_updates_counter_and_histogram:
  "app req (clock st) = (Inr resp, finish) \<Longrightarrow>
   fst (dispatch app req st) = Inr resp \<and>
   counter (metrics (snd (dispatch app req st))) =
     (counter (metrics st))
       ((req_method req, req_route req, status resp) :=
          counter (metrics st) (req_method req, req_route req, status resp) + 1) \<and>
   histogram (metrics (snd (dispatch app req st))) =
     (histogram (metrics st))
       ((req_method req, req_route req, status resp) :=
          histogram (metrics st) (req_method req, req_route req, status resp)
            @ [finish - clock st]) \<and>
   body (handle_metrics render req' st') = render (metrics st')"
  by (simp add: dispatch_response labels_of_def counter_inc_def histogram_observe_def
        handle_metrics_def)

theorem middleware_updates_counter_and_histogram_witness:
  "(\<lambda>req t. (Inr \<lparr>status = 200, body = ''ok''\<rparr>, t + 3) :: (string + response) \<times> int)
     \<lparr>req_method = ''GET'', req_route = ''/items''\<rparr>
     (clock \<lparr>clock = 10, metrics = \<lparr>counter = (\<lambda>key. 0), histogram = (\<lambda>key. [])\<rparr>\<rparr>) =
     (Inr \<lparr>status = 200, body = ''ok''\<rparr>, 13) \<and>
   counter (metrics (snd (dispatch
       (\<lambda>req t. (Inr \<lparr>status = 200, body = ''ok''\<rparr>, t + 3) :: (string + response) \<times> int)
       \<lparr>req_method = ''GET'', req_route = ''/items''\<rparr>
       \<lparr>clock = 10, metrics = \<lparr>counter = (\<lambda>key. 0), histogram = (\<lambda>key. [])\<rparr>\<rparr>)))
     (''GET'', ''/items'', 200) = 1 \<and>
   histogram (metrics (snd (dispatch
       (\<lambda>req t. (Inr \<lparr>status = 200, body = ''ok''\<rparr>, t + 3) :: (string + response) \<times> int)
       \<lparr>req_method = ''GET'', req_route = ''/items''\<rparr>
       \<lparr>clock = 10, metrics = \<lparr>counter = (\<lambda>key. 0), histogram = (\<lambda>key. [])\<rparr>\<rparr>)))
     (''GET'', ''/items'', 200) = [3]"
  using middleware_updates_counter_and_histogram
          [of "\<lambda>req t. (Inr \<lparr>status = 200, body = ''ok''\<rparr>, t + 3) :: (string + response) \<times> int"
              "\<lparr>req_method = ''GET'', req_route = ''/items''\<rparr>"
              "\<lparr>clock = 10, metrics = \<lparr>counter = (\<lambda>key. 0), histogram = (\<lambda>key. [])\<rparr>\<rparr>"
              "\<lparr>status = 200, body = ''ok''\<rparr>" 13 "\<lambda>reg. ''# HELP''"
              "\<lparr>req_method = ''GET'', req_route = ''/metrics''\<rparr>"
              "\<lparr>clock = 13, metrics = \<lparr>counter = (\<lambda>key. 0), histogram = (\<lambda>key. [])\<rparr>\<rparr>"]
  by simp

text \<open>
  Claim C5. The middleware ends with an exception exactly when the handler below raised
  it, and then with that same exception: it neither replaces nor swallows an exception,
  and raises none of its own. The exception type is a type parameter of the middleware,
  which therefore has no error values of its own.
\<close>

theorem exception_propagates_unchanged:
  "(fst (app req (clock st)) = Inl exn \<longrightarrow> fst (dispatch app req st) = Inl exn) \<and>
   (fst (dispatch app req st) = Inl exn \<longrightarrow> fst (app req (clock st)) = Inl exn)"
  by (cases "app req (clock st)") (auto simp: dispatch_def Let_def split: sum.splits)

theorem exception_propagates_unchanged_witness:
  "fst ((\<lambda>req t. (Inl ''ValueError'', t + 1) :: (string + response) \<times> int)
         \<lparr>req_method = ''POST'', req_route = ''/fail''\<rparr>
         (clock \<lparr>clock = 0, metrics = \<lparr>counter = (\<lambda>key. 0), histogram = (\<lambda>key. [])\<rparr>\<rparr>)) =
     Inl ''ValueError'' \<and>
   fst (dispatch (\<lambda>req t. (Inl ''ValueError'', t + 1) :: (string + response) \<times> int)
         \<lparr>req_method = ''POST'', req_route = ''/fail''\<rparr>
         \<lparr>clock = 0, metrics = \<lparr>counter = (\<lambda>key. 0), histogram = (\<lambda>key. [])\<rparr>\<rparr>) =
     Inl ''ValueError''"
  using exception_propagates_unchanged
          [of "\<lambda>req t. (Inl ''ValueError'', t + 1)"
              "\<lparr>req_method = ''POST'', req_route = ''/fail''\<rparr>"
              "\<lparr>clock = 0, metrics = \<lparr>counter = (\<lambda>key. 0), histogram = (\<lambda>key. [])\<rparr>\<rparr>"
              "''ValueError''"]
  by simp

text \<open>
  Claim C7. With the middleware installed, every request that gets a response adds one
  to the counter of its label set: after any sequence of requests, each counter has
  grown by the number of requests answered under its label set. A request to the metrics
  endpoint gets a 200 response whose body is the text the renderer produces.
\<close>

theorem counters_increment_and_metrics_endpoint_ok:
  "(app req (clock st) = (Inr resp, finish) \<longrightarrow>
      counter (metrics (snd (dispatch app req st))) (labels_of req resp) =
        counter (metrics st) (labels_of req resp) + 1) \<and>
   counter (metrics (snd (serve_all app reqs st))) key =
     counter (metrics st) key +
       count_list (map2 counted_as reqs (fst (serve_all app reqs st))) (Some key) \<and>
   status (handle_metrics render req' st') = 200 \<and>
   body (handle_metrics render req' st') = render (metrics st')"
  by (simp add: serve_all_counter dispatch_response counter_inc_def histogram_observe_def
        handle_metrics_def)

theorem counters_increment_and_metrics_endpoint_ok_witness:
  "(\<lambda>req t. (Inr \<lparr>status = 404, body = ''Not Found''\<rparr>, t + 2) :: (string + response) \<times> int)
     \<lparr>req_method = ''GET'', req_route = ''/missing''\<rparr>
     (clock \<lparr>clock = 5, metrics = \<lparr>counter = (\<lambda>key. 7), histogram = (\<lambda>key. [])\<rparr>\<rparr>) =
     (Inr \<lparr>status = 404, body = ''Not Found''\<rparr>, 7) \<and>
   counter (metrics (snd (dispatch
       (\<lambda>req t. (Inr \<lparr>status = 404, body = ''Not Found''\<rparr>, t + 2) :: (string + response) \<times> int)
       \<lparr>req_method = ''GET'', req_route = ''/missing''\<rparr>
       \<lparr>clock = 5, metrics = \<lparr>counter = (\<lambda>key. 7), histogram = (\<lambda>key. [])\<rparr>\<rparr>)))
     (''GET'', ''/missing'', 404) = 8"
  using counters_increment_and_metrics_endpoint_ok
          [of "\<lambda>req t. (Inr \<lparr>status = 404, body = ''Not Found''\<rparr>, t + 2) :: (string + response) \<times> int"
              "\<lparr>req_method = ''GET'', req_route = ''/missing''\<rparr>"
              "\<lparr>clock = 5, metrics = \<lparr>counter = (\<lambda>key. 7), histogram = (\<lambda>key. [])\<rparr>\<rparr>"
              "\<lparr>status = 404, body = ''Not Found''\<rparr>" 7 "[]" "(''GET'', ''/missing'', 404)"
              "\<lambda>reg. ''# HELP''" "\<lparr>req_method = ''GET'', req_route = ''/metrics''\<rparr>"
              "\<lparr>clock = 7, metrics = \<lparr>counter = (\<lambda>key. 7), histogram = (\<lambda>key. [])\<rparr>\<rparr>"]
  by (simp add: labels_of_def)

end
